theory Spec2Isabelle
  imports Main "HOL-Library.Word"
begin

unbundle bit_operations_syntax

section \<open>Club models (models/club-models.ts)\<close>

text \<open>
  A \<open>Uint8Array\<close> is a list of bytes. \<open>Instant\<close> (js-joda) and \<open>AesKey\<close>
  (models/encryption-models) are declared outside the modelled files: an instant is
  taken as its epoch value, an AES key as its raw bytes. A TypeScript \<open>number\<close> that
  counts members is an \<open>int\<close>. A field of type \<open>T | undefined\<close> is a \<open>T option\<close>.
  Field names carry a prefix naming their record, since several classes share
  \<open>clubId\<close>, \<open>userId\<close> and the like.
\<close>

type_synonym byte = "8 word"
type_synonym Uint8Array = "byte list"
type_synonym Instant = int
type_synonym AesKey = "byte list"

datatype ClubRole = owner | admin | member | viewer

record ClubSettingsPOJO =
  csp_BRAND :: string
  csp_membersCanPost :: bool
  csp_membersCanInvite :: bool
  csp_maxMembers :: int

record ClubSettings =
  cs_membersCanPost :: bool
  cs_membersCanInvite :: bool
  cs_maxMembers :: int

definition ClubSettings_fromPOJO :: "ClubSettingsPOJO \<Rightarrow> ClubSettings" where
  "ClubSettings_fromPOJO pojo =
     \<lparr>cs_membersCanPost = csp_membersCanPost pojo,
      cs_membersCanInvite = csp_membersCanInvite pojo,
      cs_maxMembers = csp_maxMembers pojo\<rparr>"

definition ClubSettings_toPOJO :: "ClubSettings \<Rightarrow> ClubSettingsPOJO" where
  "ClubSettings_toPOJO this =
     \<lparr>csp_BRAND = ''CLUB_SETTINGS_POJO'',
      csp_membersCanPost = cs_membersCanPost this,
      csp_membersCanInvite = cs_membersCanInvite this,
      csp_maxMembers = cs_maxMembers this\<rparr>"

record ClubPOJO =
  cp_BRAND :: string
  cp_id :: string
  cp_ownerUserId :: string
  cp_created :: Instant
  cp_name :: string
  cp_description :: "string option"
  cp_profilePicture :: "Uint8Array option"
  cp_aesKey :: AesKey
  cp_isPublic :: bool
  cp_settings :: ClubSettingsPOJO
  cp_memberCount :: int

record Club =
  c_id :: string
  c_ownerUserId :: string
  c_created :: Instant
  c_name :: string
  c_description :: "string option"
  c_profilePicture :: "Uint8Array option"
  c_aesKey :: AesKey
  c_isPublic :: bool
  c_settings :: ClubSettings
  c_memberCount :: int

definition Club_fromPOJO :: "ClubPOJO \<Rightarrow> Club" where
  "Club_fromPOJO pojo =
     \<lparr>c_id = cp_id pojo,
      c_ownerUserId = cp_ownerUserId pojo,
      c_created = cp_created pojo,
      c_name = cp_name pojo,
      c_description = cp_description pojo,
      c_profilePicture = cp_profilePicture pojo,
      c_aesKey = cp_aesKey pojo,
      c_isPublic = cp_isPublic pojo,
      c_settings = ClubSettings_fromPOJO (cp_settings pojo),
      c_memberCount = cp_memberCount pojo\<rparr>"

definition Club_toPOJO :: "Club \<Rightarrow> ClubPOJO" where
  "Club_toPOJO this =
     \<lparr>cp_BRAND = ''CLUB_POJO'',
      cp_id = c_id this,
      cp_ownerUserId = c_ownerUserId this,
      cp_created = c_created this,
      cp_name = c_name this,
      cp_description = c_description this,
      cp_profilePicture = c_profilePicture this,
      cp_aesKey = c_aesKey this,
      cp_isPublic = c_isPublic this,
      cp_settings = ClubSettings_toPOJO (c_settings this),
      cp_memberCount = c_memberCount this\<rparr>"

record ClubMemberPOJO =
  cmp_BRAND :: string
  cmp_clubId :: string
  cmp_userId :: string
  cmp_role :: ClubRole
  cmp_joined :: Instant

record ClubMember =
  cm_clubId :: string
  cm_userId :: string
  cm_role :: ClubRole
  cm_joined :: Instant

definition ClubMember_fromPOJO :: "ClubMemberPOJO \<Rightarrow> ClubMember" where
  "ClubMember_fromPOJO pojo =
     \<lparr>cm_clubId = cmp_clubId pojo,
      cm_userId = cmp_userId pojo,
      cm_role = cmp_role pojo,
      cm_joined = cmp_joined pojo\<rparr>"

definition ClubMember_toPOJO :: "ClubMember \<Rightarrow> ClubMemberPOJO" where
  "ClubMember_toPOJO this =
     \<lparr>cmp_BRAND = ''CLUB_MEMBER_POJO'',
      cmp_clubId = cm_clubId this,
      cmp_userId = cm_userId this,
      cmp_role = cm_role this,
      cmp_joined = cm_joined this\<rparr>"

subsection \<open>Feed items\<close>

text \<open>
  The abstract class \<open>ClubFeedItem\<close> holds the five common fields; its two subclasses
  add a session or an announcement. The class hierarchy is a datatype with one
  constructor for each subclass, and the two abstract methods are functions by cases
  on it. \<open>Session\<close> is declared in models/session-models and stays a type parameter.
  An argument of type \<open>T | undefined\<close> is a \<open>T option\<close>; the test \<open>!announcement\<close>
  is also true of the empty string.
\<close>

record ClubFeedItemBase =
  fi_clubId :: string
  fi_userId :: string
  fi_eventId :: string
  fi_timestamp :: Instant
  fi_expiry :: Instant

datatype 'session ClubFeedItem =
    ClubSessionFeedItem ClubFeedItemBase 'session
  | ClubAnnouncementFeedItem ClubFeedItemBase string

fun base :: "'session ClubFeedItem \<Rightarrow> ClubFeedItemBase" where
  "base (ClubSessionFeedItem b s) = b"
| "base (ClubAnnouncementFeedItem b a) = b"

fun withSession :: "'session option \<Rightarrow> 'session ClubFeedItem \<Rightarrow> 'session ClubFeedItem" where
  "withSession None (ClubSessionFeedItem b s) = ClubSessionFeedItem b s"
| "withSession (Some session) (ClubSessionFeedItem b s) =
     ClubSessionFeedItem
       \<lparr>fi_clubId = fi_clubId b, fi_userId = fi_userId b, fi_eventId = fi_eventId b,
        fi_timestamp = fi_timestamp b, fi_expiry = fi_expiry b\<rparr> session"
| "withSession _ (ClubAnnouncementFeedItem b a) = ClubAnnouncementFeedItem b a"

fun withAnnouncement :: "string option \<Rightarrow> 'session ClubFeedItem \<Rightarrow> 'session ClubFeedItem" where
  "withAnnouncement _ (ClubSessionFeedItem b s) = ClubSessionFeedItem b s"
| "withAnnouncement None (ClubAnnouncementFeedItem b a) = ClubAnnouncementFeedItem b a"
| "withAnnouncement (Some announcement) (ClubAnnouncementFeedItem b a) =
     (if announcement = [] then ClubAnnouncementFeedItem b a
      else ClubAnnouncementFeedItem
        \<lparr>fi_clubId = fi_clubId b, fi_userId = fi_userId b, fi_eventId = fi_eventId b,
         fi_timestamp = fi_timestamp b, fi_expiry = fi_expiry b\<rparr> announcement)"

subsection \<open>Invites\<close>

record ClubInvitePOJO =
  ci_BRAND :: string
  ci_clubId :: string
  ci_clubName :: string
  ci_clubDescription :: "string option"
  ci_clubProfilePicture :: "Uint8Array option"
  ci_clubAesKey :: AesKey
  ci_offeredRole :: ClubRole
  ci_fromUserId :: string
  ci_fromUserName :: "string option"

section \<open>The clubs slice (app/store/clubs/index.ts)\<close>

text \<open>
  A \<open>Record<string, T>\<close> is a map from strings. \<open>FeedUserPOJO\<close> (models/feed-models)
  and the POJO of a feed item stay type parameters: the reducers move them without
  looking inside. Each reducer takes the state and the payload's fields and returns
  the new state.

  The reducers of \<open>createSlice\<close> write to a draft of the state. An assignment
  \<open>record[key] = value\<close> stores the value under the key, except for the key
  \<open>__proto__\<close>: there the assignment reaches the setter that every object inherits,
  the draft refuses to have its prototype set, and the reducer throws. A reducer
  that assigns to a record therefore returns the new state or that error.
  \<open>delete record[key]\<close> removes the key and does nothing when the record has no such
  key.
\<close>

record ('user, 'item) ClubsState =
  isHydrated :: bool
  clubs :: "string \<rightharpoonup> ClubPOJO"
  clubMembers :: "string \<rightharpoonup> (string \<rightharpoonup> 'user)"
  clubFeeds :: "string \<rightharpoonup> 'item list"
  clubInvites :: "ClubInvitePOJO list"
  discoveredClubs :: "ClubPOJO list"
  selectedClubId :: "string option"
  isFetching :: bool

definition initialState :: "('user, 'item) ClubsState" where
  "initialState =
     \<lparr>isHydrated = False, clubs = Map.empty, clubMembers = Map.empty,
      clubFeeds = Map.empty, clubInvites = [], discoveredClubs = [],
      selectedClubId = None, isFetching = False\<rparr>"

datatype ReducerError = SetPrototypeOfDraft

definition assignRecord ::
  "(string \<rightharpoonup> 'v) \<Rightarrow> string \<Rightarrow> 'v \<Rightarrow> ReducerError + (string \<rightharpoonup> 'v)" where
  "assignRecord r k v = (if k = ''__proto__'' then Inl SetPrototypeOfDraft else Inr (r(k \<mapsto> v)))"

definition leaveClubCompleted ::
  "('user, 'item) ClubsState \<Rightarrow> string \<Rightarrow> ('user, 'item) ClubsState" where
  "leaveClubCompleted state clubId =
     state\<lparr>clubs := (clubs state)(clubId := None),
           clubMembers := (clubMembers state)(clubId := None),
           clubFeeds := (clubFeeds state)(clubId := None)\<rparr>"

definition clubInviteReceived ::
  "('user, 'item) ClubsState \<Rightarrow> ClubInvitePOJO \<Rightarrow> ('user, 'item) ClubsState" where
  "clubInviteReceived state invite =
     state\<lparr>clubInvites := clubInvites state @ [invite]\<rparr>"

definition acceptClubInviteCompleted ::
  "('user, 'item) ClubsState \<Rightarrow> string \<Rightarrow> ClubPOJO \<Rightarrow>
   ReducerError + ('user, 'item) ClubsState" where
  "acceptClubInviteCompleted state clubId club =
     (case assignRecord (clubs state) (cp_id club) club of
        Inl e \<Rightarrow> Inl e
      | Inr clubs' \<Rightarrow>
          Inr (state\<lparr>clubInvites := filter (\<lambda>i. ci_clubId i \<noteq> clubId) (clubInvites state),
                     clubs := clubs'\<rparr>))"

definition declineClubInviteCompleted ::
  "('user, 'item) ClubsState \<Rightarrow> string \<Rightarrow> ('user, 'item) ClubsState" where
  "declineClubInviteCompleted state clubId =
     state\<lparr>clubInvites := filter (\<lambda>i. ci_clubId i \<noteq> clubId) (clubInvites state)\<rparr>"

text \<open>
  A club and an invite with a given club id, to run the reducers on concrete
  states.
\<close>

definition exampleClub :: "string \<Rightarrow> ClubPOJO" where
  "exampleClub clubId =
     \<lparr>cp_BRAND = ''CLUB_POJO'', cp_id = clubId, cp_ownerUserId = ''user-1'', cp_created = 0,
      cp_name = ''Lifters'', cp_description = None, cp_profilePicture = None,
      cp_aesKey = [1, 2, 3], cp_isPublic = True,
      cp_settings =
        \<lparr>csp_BRAND = ''CLUB_SETTINGS_POJO'', csp_membersCanPost = True,
         csp_membersCanInvite = False, csp_maxMembers = 50\<rparr>,
      cp_memberCount = 1\<rparr>"

definition exampleInvite :: "string \<Rightarrow> ClubInvitePOJO" where
  "exampleInvite clubId =
     \<lparr>ci_BRAND = ''CLUB_INVITE_POJO'', ci_clubId = clubId, ci_clubName = ''Lifters'',
      ci_clubDescription = None, ci_clubProfilePicture = None, ci_clubAesKey = [1, 2, 3],
      ci_offeredRole = member, ci_fromUserId = ''user-1'', ci_fromUserName = None\<rparr>"

section \<open>The club API service (app/services/club-api.ts)\<close>

subsection \<open>Results and errors\<close>

text \<open>
  \<open>ApiResult\<close>, \<open>ApiErrorType\<close> and \<open>ResponseError\<close> are imported from
  services/api-error; the service uses the four error types below, builds a result
  from data or with \<open>ApiResult.fromError\<close>, and throws \<open>ResponseError\<close> around a
  response. A \<open>FetchResponse\<close> is what the service reads from it: the status, the
  status text and the outcome of reading the body as text (\<open>await response.text()\<close>),
  which resolves to the text (\<open>Inr\<close>) or, when the body cannot be read, rejects with
  an error (\<open>Inl\<close> with the error's message). Its getter \<open>ok\<close> is true for the
  statuses 200 to 299. What an action throws is a value: a \<open>ResponseError\<close> with its
  response, or anything else; either may have a \<open>message\<close>. The message that the
  constructor of \<open>ResponseError\<close> sets is a parameter (\<open>rem\<close>) of the functions
  that throw one.
\<close>

datatype ApiErrorType = NotFound | Unauthorized | RateLimited | Unknown

record FetchResponse =
  status :: int
  statusText :: string
  bodyText :: "string + string"

definition ok :: "FetchResponse \<Rightarrow> bool" where
  "ok response = (200 \<le> status response \<and> status response \<le> 299)"

datatype thrown =
    ResponseError FetchResponse "string option"
  | Error "string option"

fun message_of :: "thrown \<Rightarrow> string option" where
  "message_of (ResponseError response m) = m"
| "message_of (Error m) = m"

record ApiError =
  type :: ApiErrorType
  message :: string
  exception :: thrown

datatype 'a ApiResult = ApiResult 'a | fromError ApiError

text \<open>
  \<open>getApiResultAsync\<close> awaits the action inside \<open>try\<close>; the action's outcome is the
  value it resolves to or the value it throws. Its own outcome is the result it
  resolves to (\<open>Inr\<close>) or what it throws to its caller (\<open>Inl\<close>). For a
  \<open>ResponseError\<close> the \<open>catch\<close> block first awaits \<open>response.text()\<close> for its
  debug line, outside any \<open>try\<close>: when that rejects, the error leaves the block.
  The last \<open>return\<close> is reached by a \<open>ResponseError\<close> of any other status and by
  every other thrown value; there \<open>message || 'An unknown error occurred'\<close>
  replaces a missing or empty message.
\<close>

definition unknownError :: "thrown \<Rightarrow> 'a ApiResult" where
  "unknownError error =
     fromError \<lparr>type = Unknown,
       message = (case message_of error of
                    None \<Rightarrow> ''An unknown error occurred''
                  | Some m \<Rightarrow> if m = [] then ''An unknown error occurred'' else m),
       exception = error\<rparr>"

fun getApiResultAsync :: "thrown + 'a \<Rightarrow> thrown + 'a ApiResult" where
  "getApiResultAsync (Inr data) = Inr (ApiResult data)"
| "getApiResultAsync (Inl (ResponseError response m)) =
     (case bodyText response of
        Inl failure \<Rightarrow> Inl (Error (Some failure))
      | Inr _ \<Rightarrow>
          Inr (if status response = 404 then
                 fromError \<lparr>type = NotFound, message = statusText response,
                   exception = ResponseError response m\<rparr>
               else if status response = 401 then
                 fromError \<lparr>type = Unauthorized, message = statusText response,
                   exception = ResponseError response m\<rparr>
               else if status response = 403 then
                 fromError \<lparr>type = Unauthorized,
                   message = ''Forbidden: Insufficient permissions'',
                   exception = ResponseError response m\<rparr>
               else if status response = 429 then
                 fromError \<lparr>type = RateLimited, message = statusText response,
                   exception = ResponseError response m\<rparr>
               else unknownError (ResponseError response m)))"
| "getApiResultAsync (Inl (Error m)) = Inr (unknownError (Error m))"

definition ensureSuccessStatusCode ::
  "(FetchResponse \<Rightarrow> string option) \<Rightarrow> FetchResponse \<Rightarrow> thrown + unit" where
  "ensureSuccessStatusCode rem response =
     (if \<not> ok response then Inl (ResponseError response (rem response)) else Inr ())"

subsection \<open>Operations\<close>

text \<open>
  \<open>fetch\<close> reaches the backend: it takes the request and the backend's state and
  gives a response, or throws, and the backend's next state. Every operation of the
  service but \<open>acceptClubInviteAsync\<close> has one shape: inside \<open>getApiResultAsync\<close>
  it calls \<open>fetch\<close> once, then \<open>ensureSuccessStatusCode\<close>, then reads what it
  returns from the response (\<open>response.json()\<close> and the conversion of its base64
  fields; nothing for the operations of type \<open>void\<close>). The operations differ in the
  request and in that reading, the parameters \<open>request\<close> and \<open>decode\<close> of
  \<open>httpOperation\<close>.
\<close>

record HttpRequest =
  url :: string
  httpMethod :: string
  body :: "string option"

type_synonym 'srv fetch = "HttpRequest \<Rightarrow> 'srv \<Rightarrow> (thrown + FetchResponse) \<times> 'srv"

definition httpAction ::
  "(FetchResponse \<Rightarrow> string option) \<Rightarrow> (FetchResponse \<Rightarrow> thrown + 'a) \<Rightarrow>
   thrown + FetchResponse \<Rightarrow> thrown + 'a" where
  "httpAction rem decode fetched =
     (case fetched of
        Inl error \<Rightarrow> Inl error
      | Inr response \<Rightarrow>
          (case ensureSuccessStatusCode rem response of
             Inl error \<Rightarrow> Inl error
           | Inr _ \<Rightarrow> decode response))"

definition httpOperation ::
  "(FetchResponse \<Rightarrow> string option) \<Rightarrow> 'srv fetch \<Rightarrow> (FetchResponse \<Rightarrow> thrown + 'a) \<Rightarrow>
   HttpRequest \<Rightarrow> 'srv \<Rightarrow> (thrown + 'a ApiResult) \<times> 'srv" where
  "httpOperation rem fetch decode request srv =
     (case fetch request srv of
        (fetched, srv') \<Rightarrow> (getApiResultAsync (httpAction rem decode fetched), srv'))"

record AcceptClubInviteRequest =
  acr_clubId :: string
  acr_userId :: string
  acr_password :: string
  acr_encryptedAesKey :: Uint8Array

text \<open>
  \<open>acceptClubInviteAsync\<close> calls no \<open>fetch\<close>: its action throws at once; its
  comment calls it a placeholder.
\<close>

definition acceptClubInviteAsync ::
  "AcceptClubInviteRequest \<Rightarrow> 'srv \<Rightarrow> (thrown + unit ApiResult) \<times> 'srv" where
  "acceptClubInviteAsync request srv =
     (getApiResultAsync (Inl (Error (Some ''Not implemented - use inbox system''))), srv)"

text \<open>
  A row of the backend's member table as the service reads it
  (\<open>ClubMemberResponse\<close>, models/club-api-models.ts).
\<close>

record ClubMemberResponse =
  cmr_id :: string
  cmr_clubId :: string
  cmr_userId :: string
  cmr_joined :: string
  cmr_role :: ClubRole
  cmr_encryptedAesKey :: Uint8Array

subsection \<open>Base64 helpers\<close>

text \<open>
  \<open>uint8ArrayToBase64\<close> is \<open>btoa(String.fromCharCode(...value))\<close> and
  \<open>base64ToUint8Array\<close> is \<open>Uint8Array.from(atob(value), c => c.charCodeAt(0))\<close>.
  \<open>btoa\<close> and \<open>atob\<close> are the platform's functions, modelled after the HTML
  standard's forgiving-base64 encode and decode. A string of code units up to 255 (a
  binary string) is a \<open>string\<close>, whose characters are bytes; \<open>btoa\<close> throws only on
  a code unit above 255, which such a string has none of. \<open>atob\<close> removes ASCII
  whitespace, removes one or two trailing \<open>=\<close> when the length is a multiple of 4,
  and throws (\<open>None\<close>) when the remaining length is 1 modulo 4 or a character is
  outside the alphabet. Groups of bits are written with \<open>div\<close> and \<open>mod\<close> on the
  code values. The spread \<open>...value\<close> passes every byte as one argument of a single
  call; an engine accepts only so many arguments and throws \<open>RangeError\<close> beyond.
  That limit differs between engines and is the parameter \<open>maxArguments\<close>;
  \<open>uint8ArrayToBase64\<close> gives \<open>None\<close> where the call throws.
\<close>

definition base64Alphabet :: string where
  "base64Alphabet = ''ABCDEFGHIJKLMNOPQRSTUVWXYZabcdefghijklmnopqrstuvwxyz0123456789+/''"

definition base64Char :: "nat \<Rightarrow> char" where
  "base64Char n = base64Alphabet ! n"



fun encodeGroups :: "nat list \<Rightarrow> nat list" where
  "encodeGroups (a # b # c # rest) =
     [a div 4, (a mod 4) * 16 + b div 16, (b mod 16) * 4 + c div 64, c mod 64] @ encodeGroups rest"
| "encodeGroups [a, b] = [a div 4, (a mod 4) * 16 + b div 16, (b mod 16) * 4]"
| "encodeGroups [a] = [a div 4, (a mod 4) * 16]"
| "encodeGroups [] = []"

definition btoa :: "string \<Rightarrow> string" where
  "btoa s =
     map base64Char (encodeGroups (map of_char s)) @
     replicate ((3 - length s mod 3) mod 3) CHR ''=''"





definition uint8ArrayToBase64 :: "nat \<Rightarrow> Uint8Array \<Rightarrow> string option" where
  "uint8ArrayToBase64 maxArguments v =
     (if maxArguments < length v then None
      else Some (btoa (map (\<lambda>b. char_of (unat b)) v)))"


section \<open>Encryption primitives (spec, section 4.1)\<close>

text \<open>
  Modelled from the spec: \<open>EncryptionService\<close> (services/encryption-service), which
  the effects call as \<open>encryptAesCbcAsync\<close> and \<open>decryptAesCbcAsync\<close>, is not
  among the source files. Section 4.1 gives \<open>encryptAesCbc(plaintext, key) ->
  (ciphertext, iv)\<close> with a freshly random IV per call and \<open>decryptAesCbc(ciphertext,
  iv, key) -> plaintext\<close>, failing with \<open>DecryptionError\<close> on bad padding; the
  primitive is the standard AES-CBC, taken as given. The model is CBC chaining with
  PKCS#7 padding over blocks of 16 bytes. The block cipher itself (AES) is a
  parameter: a pair of functions on blocks, of which \<open>isBlockCipher\<close> says that
  they keep the block length and that decrypting undoes encrypting under the same
  key. The random source is a stream of bytes read from a position; a call that
  draws \<open>n\<close> bytes returns them and the position after them.
\<close>

datatype EncryptionError = DecryptionError

record BlockCipher =
  encryptBlock :: "AesKey \<Rightarrow> byte list \<Rightarrow> byte list"
  decryptBlock :: "AesKey \<Rightarrow> byte list \<Rightarrow> byte list"

definition isBlockCipher :: "BlockCipher \<Rightarrow> bool" where
  "isBlockCipher bc =
     (\<forall>k b. length b = 16 \<longrightarrow>
        length (encryptBlock bc k b) = 16 \<and> decryptBlock bc k (encryptBlock bc k b) = b)"

definition xorBytes :: "byte list \<Rightarrow> byte list \<Rightarrow> byte list" where
  "xorBytes a b = map (\<lambda>(x, y). x XOR y) (zip a b)"

definition pkcs7Pad :: "byte list \<Rightarrow> byte list" where
  "pkcs7Pad p = (let n = 16 - length p mod 16 in p @ replicate n (of_nat n))"

definition pkcs7Unpad :: "byte list \<Rightarrow> byte list option" where
  "pkcs7Unpad d =
     (if d = [] then None
      else let n = unat (last d) in
        if n = 0 \<or> 16 < n \<or> length d < n \<or> drop (length d - n) d \<noteq> replicate n (last d)
        then None
        else Some (take (length d - n) d))"

function cbcEncrypt :: "BlockCipher \<Rightarrow> AesKey \<Rightarrow> byte list \<Rightarrow> byte list \<Rightarrow> byte list" where
  "cbcEncrypt bc k prev p =
     (if p = [] then []
      else let c = encryptBlock bc k (xorBytes (take 16 p) prev)
           in c @ cbcEncrypt bc k c (drop 16 p))"
  by pat_completeness auto
termination
  by (relation "measure (\<lambda>(bc, k, prev, p). length p)") auto

function cbcDecrypt :: "BlockCipher \<Rightarrow> AesKey \<Rightarrow> byte list \<Rightarrow> byte list \<Rightarrow> byte list" where
  "cbcDecrypt bc k prev c =
     (if c = [] then []
      else xorBytes (decryptBlock bc k (take 16 c)) prev @
           cbcDecrypt bc k (take 16 c) (drop 16 c))"
  by pat_completeness auto
termination
  by (relation "measure (\<lambda>(bc, k, prev, c). length c)") auto

declare cbcEncrypt.simps [simp del] cbcDecrypt.simps [simp del]

type_synonym entropy = "nat \<Rightarrow> byte"

definition getRandomValues :: "entropy \<Rightarrow> nat \<Rightarrow> nat \<Rightarrow> byte list \<times> nat" where
  "getRandomValues src pos n = (map src [pos..<pos + n], pos + n)"

text \<open>
  The pair that the effects read as \<open>encryptedPayload\<close> and \<open>iv.value\<close>.
\<close>

record AesEncryptedAndIvPayload =
  encryptedPayload :: Uint8Array
  iv :: Uint8Array

text \<open>
  Modelled from the spec: \<open>encryptAesCbc\<close> draws a fresh IV of 16 bytes from the
  random source on every call and returns the ciphertext with that IV.
\<close>

definition encryptAesCbc ::
  "BlockCipher \<Rightarrow> entropy \<Rightarrow> nat \<Rightarrow> Uint8Array \<Rightarrow> AesKey \<Rightarrow> AesEncryptedAndIvPayload \<times> nat" where
  "encryptAesCbc bc src pos plaintext key =
     (case getRandomValues src pos 16 of
        (v, pos') \<Rightarrow>
          (\<lparr>encryptedPayload = cbcEncrypt bc key v (pkcs7Pad plaintext), iv = v\<rparr>, pos'))"

text \<open>
  Modelled from the spec: \<open>decryptAesCbc\<close> fails with \<open>DecryptionError\<close> on a
  ciphertext that is not a positive number of blocks, on an IV that is not a block,
  and on bad padding.
\<close>

definition decryptAesCbc ::
  "BlockCipher \<Rightarrow> AesEncryptedAndIvPayload \<Rightarrow> AesKey \<Rightarrow> EncryptionError + Uint8Array" where
  "decryptAesCbc bc payload key =
     (if length (iv payload) \<noteq> 16 \<or> encryptedPayload payload = [] \<or>
         length (encryptedPayload payload) mod 16 \<noteq> 0
      then Inl DecryptionError
      else case pkcs7Unpad (cbcDecrypt bc key (iv payload) (encryptedPayload payload)) of
             None \<Rightarrow> Inl DecryptionError
           | Some p \<Rightarrow> Inr p)"

text \<open>
  A block cipher and a random source to run the model on concrete inputs: the cipher
  adds the sum of the key's bytes to every byte and reverses the block, the source
  gives the byte \<open>i mod 256\<close> at position \<open>i\<close>.
\<close>

definition toyCipher :: BlockCipher where
  "toyCipher =
     \<lparr>encryptBlock = (\<lambda>k b. rev (map (\<lambda>x. x + sum_list k) b)),
      decryptBlock = (\<lambda>k c. map (\<lambda>x. x - sum_list k) (rev c))\<rparr>"

definition countingEntropy :: entropy where
  "countingEntropy i = of_nat i"


section \<open>The clubs effects (app/store/clubs/effects.ts)\<close>

text \<open>
  A text is held as the bytes of its UTF-8 form, which is what
  \<open>new TextEncoder().encode\<close> returns: encoding is the passage from characters to
  bytes. \<open>new TextDecoder().decode\<close> does more than the passage back (it drops a
  leading byte order mark and replaces malformed sequences), so it is not defined
  here: it is the parameter \<open>decode\<close> of the load flow. Of the identity and of the
  payload of \<open>createClubStarted\<close> the records below have the fields that the request
  is built from.
\<close>

definition textEncode :: "string \<Rightarrow> Uint8Array" where
  "textEncode s = map (\<lambda>c. of_nat (of_char c)) s"

record Identity =
  id_id :: string
  id_password :: string

record CreateClubPayload =
  ccp_name :: string
  ccp_description :: "string option"
  ccp_isPublic :: bool
  ccp_membersCanPost :: bool
  ccp_membersCanInvite :: bool
  ccp_maxMembers :: int

text \<open>\<open>CreateClubRequest\<close> and \<open>GetClubResponse\<close> of models/club-api-models.ts.\<close>

record CreateClubRequest =
  ccr_userId :: string
  ccr_password :: string
  ccr_encryptedName :: Uint8Array
  ccr_encryptedDescription :: "Uint8Array option"
  ccr_encryptedProfilePicture :: "Uint8Array option"
  ccr_encryptionIv :: Uint8Array
  ccr_isPublic :: bool
  ccr_membersCanPost :: bool
  ccr_membersCanInvite :: bool
  ccr_maxMembers :: int

record GetClubResponse =
  gcr_id :: string
  gcr_ownerUserId :: string
  gcr_created :: string
  gcr_encryptedName :: Uint8Array
  gcr_encryptedDescription :: "Uint8Array option"
  gcr_encryptedProfilePicture :: "Uint8Array option"
  gcr_encryptionIv :: Uint8Array
  gcr_isPublic :: bool
  gcr_membersCanPost :: bool
  gcr_membersCanInvite :: bool
  gcr_maxMembers :: int
  gcr_memberCount :: int

text \<open>
  The effect of \<open>createClubStarted\<close>, from the generated key to the request it passes
  to \<open>createClubAsync\<close>. The key that \<open>generateAesKeyAsync\<close> returned is the
  argument \<open>clubAesKey\<close>. The name is encrypted by one call of \<open>encryptAesCbcAsync\<close>
  and the description, when the payload has a non-empty one, by a second call; the
  request carries both ciphertexts and, as \<open>encryptionIv\<close>, the IV of the name
  (\<open>encryptedName.iv.value\<close>). The key wrapped for the owner is computed by the
  effect but is not a field of the request.
\<close>

definition createClubRequest ::
  "BlockCipher \<Rightarrow> entropy \<Rightarrow> nat \<Rightarrow> Identity \<Rightarrow> CreateClubPayload \<Rightarrow> AesKey \<Rightarrow>
   CreateClubRequest \<times> nat" where
  "createClubRequest bc src pos identity payload clubAesKey =
     (case encryptAesCbc bc src pos (textEncode (ccp_name payload)) clubAesKey of
        (encryptedName, pos1) \<Rightarrow>
          (case (case ccp_description payload of
                   None \<Rightarrow> (None, pos1)
                 | Some d \<Rightarrow>
                     if d = [] then (None, pos1)
                     else (case encryptAesCbc bc src pos1 (textEncode d) clubAesKey of
                             (e, pos2) \<Rightarrow> (Some e, pos2))) of
             (encryptedDescription, pos2) \<Rightarrow>
               (\<lparr>ccr_userId = id_id identity,
                 ccr_password = id_password identity,
                 ccr_encryptedName = encryptedPayload encryptedName,
                 ccr_encryptedDescription = map_option encryptedPayload encryptedDescription,
                 ccr_encryptedProfilePicture = None,
                 ccr_encryptionIv = iv encryptedName,
                 ccr_isPublic = ccp_isPublic payload,
                 ccr_membersCanPost = ccp_membersCanPost payload,
                 ccr_membersCanInvite = ccp_membersCanInvite payload,
                 ccr_maxMembers = ccp_maxMembers payload\<rparr>, pos2)))"

text \<open>
  Modelled from the spec: the backend that stores a created club and returns it to
  \<open>getMyClubsAsync\<close> is not among the source files. Section 6 has it as a reliable
  store of bytes: it keeps the ciphertexts and the IV of the request untouched and
  gives them back; a new club has one member, its owner.
\<close>

definition storedClub :: "string \<Rightarrow> string \<Rightarrow> CreateClubRequest \<Rightarrow> GetClubResponse" where
  "storedClub clubId created request =
     \<lparr>gcr_id = clubId,
      gcr_ownerUserId = ccr_userId request,
      gcr_created = created,
      gcr_encryptedName = ccr_encryptedName request,
      gcr_encryptedDescription = ccr_encryptedDescription request,
      gcr_encryptedProfilePicture = ccr_encryptedProfilePicture request,
      gcr_encryptionIv = ccr_encryptionIv request,
      gcr_isPublic = ccr_isPublic request,
      gcr_membersCanPost = ccr_membersCanPost request,
      gcr_membersCanInvite = ccr_membersCanInvite request,
      gcr_maxMembers = ccr_maxMembers request,
      gcr_memberCount = 1\<rparr>"

text \<open>
  The effect of \<open>loadMyClubsStarted\<close> for one club of the response, from the point
  where the club's AES key has been unwrapped from the user's own member row: it
  decrypts the name with \<open>encryptionIv\<close>, then the description, when the response
  has one, with the same \<open>encryptionIv\<close>, and builds the \<open>Club\<close>. A decryption that
  throws ends the whole effect in its \<open>catch\<close> (\<open>loadMyClubsFailed\<close>).
  \<open>Instant.parse\<close> is the parameter \<open>parse\<close>, \<open>new TextDecoder().decode\<close> the
  parameter \<open>decode\<close>.
\<close>

definition loadClub ::
  "BlockCipher \<Rightarrow> (string \<Rightarrow> Instant) \<Rightarrow> (Uint8Array \<Rightarrow> string) \<Rightarrow> GetClubResponse \<Rightarrow>
   AesKey \<Rightarrow> EncryptionError + Club" where
  "loadClub bc parse decode clubResponse clubAesKey =
     (case decryptAesCbc bc
             \<lparr>encryptedPayload = gcr_encryptedName clubResponse,
              iv = gcr_encryptionIv clubResponse\<rparr> clubAesKey of
        Inl e \<Rightarrow> Inl e
      | Inr decryptedName \<Rightarrow>
          (case (case gcr_encryptedDescription clubResponse of
                   None \<Rightarrow> Inr None
                 | Some encryptedDescription \<Rightarrow>
                     (case decryptAesCbc bc
                             \<lparr>encryptedPayload = encryptedDescription,
                              iv = gcr_encryptionIv clubResponse\<rparr> clubAesKey of
                        Inl e \<Rightarrow> Inl e
                      | Inr decryptedDesc \<Rightarrow> Inr (Some (decode decryptedDesc)))) of
             Inl e \<Rightarrow> Inl e
           | Inr description \<Rightarrow>
               Inr \<lparr>c_id = gcr_id clubResponse,
                    c_ownerUserId = gcr_ownerUserId clubResponse,
                    c_created = parse (gcr_created clubResponse),
                    c_name = decode decryptedName,
                    c_description = description,
                    c_profilePicture = gcr_encryptedProfilePicture clubResponse,
                    c_aesKey = clubAesKey,
                    c_isPublic = gcr_isPublic clubResponse,
                    c_settings =
                      \<lparr>cs_membersCanPost = gcr_membersCanPost clubResponse,
                       cs_membersCanInvite = gcr_membersCanInvite clubResponse,
                       cs_maxMembers = gcr_maxMembers clubResponse\<rparr>,
                    c_memberCount = gcr_memberCount clubResponse\<rparr>))"

section \<open>Access control policy (spec, section 4.7)\<close>

text \<open>
  Modelled from the spec: the policy is applied by the backend, which is not among
  the source files; only the type \<open>ClubRole\<close> is (models/club-models.ts). The roles
  are ranked \<open>viewer < member < admin < owner\<close>, and \<open>permits\<close> is the capability
  table of section 4.7, row by row. Removing a member and changing a role name the
  target's role, changing a role also the new role.
\<close>

fun roleRank :: "ClubRole \<Rightarrow> nat" where
  "roleRank viewer = 0"
| "roleRank member = 1"
| "roleRank admin = 2"
| "roleRank owner = 3"

datatype ClubOperation =
    ViewFeed
  | PostFeedItem
  | InviteMember
  | RemoveMember ClubRole
  | ChangeMemberRole ClubRole ClubRole
  | UpdateClubSettings
  | DeleteClub

fun permits :: "ClubSettings \<Rightarrow> ClubRole \<Rightarrow> ClubOperation \<Rightarrow> bool" where
  "permits settings actor ViewFeed = (roleRank member \<le> roleRank actor)"
| "permits settings actor PostFeedItem =
     (roleRank member \<le> roleRank actor \<and> cs_membersCanPost settings \<or>
      roleRank admin \<le> roleRank actor)"
| "permits settings actor InviteMember =
     (roleRank member \<le> roleRank actor \<and> cs_membersCanInvite settings \<or>
      roleRank admin \<le> roleRank actor)"
| "permits settings actor (RemoveMember target) =
     (roleRank admin \<le> roleRank actor \<and> roleRank target < roleRank actor)"
| "permits settings actor (ChangeMemberRole target newRole) =
     (roleRank admin \<le> roleRank actor \<and> roleRank target < roleRank actor \<and>
      roleRank newRole \<le> roleRank actor)"
| "permits settings actor UpdateClubSettings = (actor = owner)"
| "permits settings actor DeleteClub = (actor = owner)"

section \<open>Properties of the reducers\<close>

text \<open>
  C7. After \<open>leaveClubCompleted\<close> for a club id C the maps \<open>clubs\<close>, \<open>clubMembers\<close> and
  \<open>clubFeeds\<close> have no entry for C, their entries for every other club id are the
  ones of the state before, and \<open>clubInvites\<close>, \<open>discoveredClubs\<close>, \<open>selectedClubId\<close>,
  \<open>isFetching\<close> and \<open>isHydrated\<close> are unchanged.
\<close>

theorem leaveClubCompleted_frame:
  "clubs (leaveClubCompleted s C) C = None \<and>
   clubMembers (leaveClubCompleted s C) C = None \<and>
   clubFeeds (leaveClubCompleted s C) C = None \<and>
   clubs (leaveClubCompleted s C) |` (- {C}) = clubs s |` (- {C}) \<and>
   clubMembers (leaveClubCompleted s C) |` (- {C}) = clubMembers s |` (- {C}) \<and>
   clubFeeds (leaveClubCompleted s C) |` (- {C}) = clubFeeds s |` (- {C}) \<and>
   clubInvites (leaveClubCompleted s C) = clubInvites s \<and>
   discoveredClubs (leaveClubCompleted s C) = discoveredClubs s \<and>
   selectedClubId (leaveClubCompleted s C) = selectedClubId s \<and>
   isFetching (leaveClubCompleted s C) = isFetching s \<and>
   isHydrated (leaveClubCompleted s C) = isHydrated s"
  by (simp add: leaveClubCompleted_def restrict_map_def fun_eq_iff)

text \<open>
  C4, as the code has it. The payload has a \<open>clubId\<close> and a \<open>club\<close> with an id of
  its own; the reducer removes the invites of \<open>clubId\<close> and files the club under
  \<open>club.id\<close>. For a club whose id is a key that a record can take, the reducer
  returns a state, reducing that state again with the same payload returns it
  unchanged, and, when the payload's \<open>clubId\<close> is the club's id, the \<open>clubs\<close>
  record holds the club under that id (a record has one entry for a key, so exactly
  one) and no pending invite carries it.
\<close>

theorem acceptClubInviteCompleted_idempotent:
  assumes "cp_id club \<noteq> ''__proto__''"
  shows "\<exists>s'. acceptClubInviteCompleted s clubId club = Inr s' \<and>
           acceptClubInviteCompleted s' clubId club = Inr s' \<and>
           (clubId = cp_id club \<longrightarrow>
              clubs s' clubId = Some club \<and>
              filter (\<lambda>i. ci_clubId i = clubId) (clubInvites s') = [])"
  using assms
  by (simp add: acceptClubInviteCompleted_def assignRecord_def filter_empty_conv)

theorem acceptClubInviteCompleted_idempotent_witness:
  "cp_id (exampleClub ''club-1'') \<noteq> ''__proto__'' \<and>
   ''club-1'' = cp_id (exampleClub ''club-1'') \<and>
   (\<exists>s'. acceptClubInviteCompleted
            ((initialState :: (unit, unit) ClubsState)
               \<lparr>clubInvites := [exampleInvite ''club-1'', exampleInvite ''club-2'']\<rparr>)
            ''club-1'' (exampleClub ''club-1'') = Inr s' \<and>
         acceptClubInviteCompleted s' ''club-1'' (exampleClub ''club-1'') = Inr s' \<and>
         clubs s' ''club-1'' = Some (exampleClub ''club-1'') \<and>
         clubInvites s' = [exampleInvite ''club-2''])"
proof -
  let ?s = "(initialState :: (unit, unit) ClubsState)
              \<lparr>clubInvites := [exampleInvite ''club-1'', exampleInvite ''club-2'']\<rparr>"
  have h: "cp_id (exampleClub ''club-1'') \<noteq> ''__proto__''"
    and e: "''club-1'' = cp_id (exampleClub ''club-1'')"
    by (simp_all add: exampleClub_def)
  obtain s' where
    r: "acceptClubInviteCompleted ?s ''club-1'' (exampleClub ''club-1'') = Inr s'"
    and i: "acceptClubInviteCompleted s' ''club-1'' (exampleClub ''club-1'') = Inr s'"
    and c: "''club-1'' = cp_id (exampleClub ''club-1'') \<longrightarrow>
            clubs s' ''club-1'' = Some (exampleClub ''club-1'') \<and>
            filter (\<lambda>i. ci_clubId i = ''club-1'') (clubInvites s') = []"
    using acceptClubInviteCompleted_idempotent [OF h, of ?s "''club-1''"] by blast
  have "clubInvites s' = [exampleInvite ''club-2'']"
    using r by (auto simp: acceptClubInviteCompleted_def assignRecord_def exampleClub_def
        exampleInvite_def initialState_def)
  then show ?thesis using h e r i c by blast
qed

text \<open>
  C4, as stated, fails where the payload's \<open>clubId\<close> is not the club's id: from a
  state with no club and one invite, for \<open>club-2\<close>, the payload with \<open>clubId\<close>
  \<open>club-1\<close> and the club \<open>club-2\<close> gives a state that has no club record for
  \<open>club-1\<close> and still has the invite for \<open>club-2\<close>.
\<close>

theorem acceptClubInviteCompleted_counterexample:
  "\<not> isl (acceptClubInviteCompleted
       ((initialState :: (unit, unit) ClubsState)\<lparr>clubInvites := [exampleInvite ''club-2'']\<rparr>)
       ''club-1'' (exampleClub ''club-2'')) \<and>
   clubs (projr (acceptClubInviteCompleted
       ((initialState :: (unit, unit) ClubsState)\<lparr>clubInvites := [exampleInvite ''club-2'']\<rparr>)
       ''club-1'' (exampleClub ''club-2''))) ''club-1'' = None \<and>
   map ci_clubId (clubInvites (projr (acceptClubInviteCompleted
       ((initialState :: (unit, unit) ClubsState)\<lparr>clubInvites := [exampleInvite ''club-2'']\<rparr>)
       ''club-1'' (exampleClub ''club-2'')))) = [''club-2'']"
  by (simp add: acceptClubInviteCompleted_def assignRecord_def exampleClub_def
      exampleInvite_def initialState_def)

section \<open>Properties of the models\<close>

text \<open>
  C8. \<open>fromPOJO\<close> after \<open>toPOJO\<close> gives back a value equal in every field, for \<open>Club\<close>
  (with its nested settings), \<open>ClubSettings\<close> and \<open>ClubMember\<close>; and \<open>toPOJO\<close> stamps
  the \<open>_BRAND\<close> tag of its own variant, also on the settings nested in a club.
\<close>

theorem fromPOJO_toPOJO:
  "Club_fromPOJO (Club_toPOJO (c :: Club)) = c \<and>
   ClubSettings_fromPOJO (ClubSettings_toPOJO (st :: ClubSettings)) = st \<and>
   ClubMember_fromPOJO (ClubMember_toPOJO (m :: ClubMember)) = m \<and>
   cp_BRAND (Club_toPOJO c) = ''CLUB_POJO'' \<and>
   csp_BRAND (cp_settings (Club_toPOJO c)) = ''CLUB_SETTINGS_POJO'' \<and>
   csp_BRAND (ClubSettings_toPOJO st) = ''CLUB_SETTINGS_POJO'' \<and>
   cmp_BRAND (ClubMember_toPOJO m) = ''CLUB_MEMBER_POJO''"
  by (simp add: Club_fromPOJO_def Club_toPOJO_def ClubSettings_fromPOJO_def
      ClubSettings_toPOJO_def ClubMember_fromPOJO_def ClubMember_toPOJO_def)

text \<open>
  C10. On a session item \<open>withAnnouncement\<close> returns the receiver for every argument,
  on an announcement item \<open>withSession\<close> does; with \<open>undefined\<close> both methods return
  the receiver on both variants. A same-variant update with a defined payload leaves
  \<open>clubId\<close>, \<open>userId\<close>, \<open>eventId\<close>, \<open>timestamp\<close> and \<open>expiry\<close> as they were and stays in
  its variant: the session becomes the given one, the announcement becomes the given
  one unless that is the empty string, which the test \<open>!announcement\<close> treats like
  \<open>undefined\<close>.
\<close>

theorem feed_item_updates:
  "withAnnouncement a (ClubSessionFeedItem b s) = ClubSessionFeedItem b s \<and>
   withSession s' (ClubAnnouncementFeedItem b t) = ClubAnnouncementFeedItem b t \<and>
   withSession None x = x \<and>
   withAnnouncement None x = x \<and>
   withSession (Some new) (ClubSessionFeedItem b s) = ClubSessionFeedItem b new \<and>
   withAnnouncement (Some txt) (ClubAnnouncementFeedItem b t) =
     ClubAnnouncementFeedItem b (if txt = [] then t else txt) \<and>
   fi_clubId (base (withSession (Some new) (ClubSessionFeedItem b s))) = fi_clubId b \<and>
   fi_userId (base (withSession (Some new) (ClubSessionFeedItem b s))) = fi_userId b \<and>
   fi_eventId (base (withSession (Some new) (ClubSessionFeedItem b s))) = fi_eventId b \<and>
   fi_timestamp (base (withSession (Some new) (ClubSessionFeedItem b s))) = fi_timestamp b \<and>
   fi_expiry (base (withSession (Some new) (ClubSessionFeedItem b s))) = fi_expiry b \<and>
   fi_clubId (base (withAnnouncement (Some txt) (ClubAnnouncementFeedItem b t))) = fi_clubId b \<and>
   fi_userId (base (withAnnouncement (Some txt) (ClubAnnouncementFeedItem b t))) = fi_userId b \<and>
   fi_eventId (base (withAnnouncement (Some txt) (ClubAnnouncementFeedItem b t))) = fi_eventId b \<and>
   fi_timestamp (base (withAnnouncement (Some txt) (ClubAnnouncementFeedItem b t))) =
     fi_timestamp b \<and>
   fi_expiry (base (withAnnouncement (Some txt) (ClubAnnouncementFeedItem b t))) = fi_expiry b"
proof -
  have none_s: "withSession None x = x" by (cases x) simp_all
  have none_a: "withAnnouncement None x = x" by (cases x) simp_all
  have cross_a: "withAnnouncement a (ClubSessionFeedItem b s) = ClubSessionFeedItem b s"
    by (cases a) simp_all
  have cross_s: "withSession s' (ClubAnnouncementFeedItem b t) = ClubAnnouncementFeedItem b t"
    by (cases s') simp_all
  show ?thesis
    using none_s none_a cross_a cross_s by simp
qed

section \<open>Properties of the API service\<close>

subsection \<open>Base64\<close>

text \<open>
  The backend test of the implementation guide sends \<open>dGVzdCBjbHVi\<close> as the base64
  text of \<open>test club\<close> and \<open>MTIzNDU2Nzg=\<close> as that of \<open>12345678\<close>; the model
  agrees.
\<close>

lemma uint8ArrayToBase64_within:
  "length v \<le> maxArguments \<Longrightarrow>
   uint8ArrayToBase64 maxArguments v = Some (btoa (map (\<lambda>b. char_of (unat b)) v))"
  by (simp add: uint8ArrayToBase64_def)

lemma base64_examples:
  "uint8ArrayToBase64 65535 (textEncode ''test club'') = Some ''dGVzdCBjbHVi'' \<and>
   uint8ArrayToBase64 65535 (textEncode ''12345678'') = Some ''MTIzNDU2Nzg=''"
proof -
  have "btoa (map (\<lambda>b. char_of (unat b)) (textEncode ''test club'')) = ''dGVzdCBjbHVi''"
    and "btoa (map (\<lambda>b. char_of (unat b)) (textEncode ''12345678'')) = ''MTIzNDU2Nzg=''"
    by code_simp+
  then show ?thesis
    by (simp add: uint8ArrayToBase64_within textEncode_def)
qed






lemma those_map_Some: "those (map Some xs) = Some xs"
  by (induction xs) auto











subsection \<open>Results of the operations\<close>

text \<open>
  C3. When \<open>fetch\<close> gives a response whose status is not a success and whose body
  can be read, the operation resolves to an error result carrying the
  \<open>ResponseError\<close>, of type \<open>NotFound\<close> for 404, \<open>Unauthorized\<close> for 401 and for
  403, \<open>RateLimited\<close> for 429 and \<open>Unknown\<close> for every other status; a thrown value
  that is not a \<open>ResponseError\<close> gives an error result of type \<open>Unknown\<close>. When the
  body of such a response cannot be read, the operation does not resolve to a
  result: it throws the error of \<open>response.text()\<close> to its caller.
\<close>

theorem api_error_results:
  assumes "fetch request srv = (Inr response, srv')" and "\<not> ok response"
  shows "(\<forall>t. bodyText response = Inr t \<longrightarrow>
            (\<exists>err. httpOperation rem fetch decode request srv = (Inr (fromError err), srv') \<and>
               exception err = ResponseError response (rem response) \<and>
               type err =
                 (if status response = 404 then NotFound
                  else if status response = 401 \<or> status response = 403 then Unauthorized
                  else if status response = 429 then RateLimited
                  else Unknown))) \<and>
         (\<forall>failure. bodyText response = Inl failure \<longrightarrow>
            httpOperation rem fetch decode request srv = (Inl (Error (Some failure)), srv')) \<and>
         (\<exists>err. getApiResultAsync (Inl (Error m) :: thrown + 'a) = Inr (fromError err) \<and>
            type err = Unknown)"
  using assms
  by (simp add: httpOperation_def httpAction_def ensureSuccessStatusCode_def unknownError_def)

theorem api_error_results_witness:
  "\<not> ok \<lparr>status = 403, statusText = ''Forbidden'', bodyText = Inr ''denied''\<rparr> \<and>
   (\<exists>err. httpOperation (\<lambda>r. None)
        (\<lambda>request srv.
           (Inr \<lparr>status = 403, statusText = ''Forbidden'', bodyText = Inr ''denied''\<rparr>, srv))
        (\<lambda>r. Inr ())
        \<lparr>url = ''https://api.liftlog.online/v2/club/c1/leave'', httpMethod = ''POST'',
         body = None\<rparr>
        (0::nat) = (Inr (fromError err), 0) \<and>
      type err = Unauthorized) \<and>
   \<not> ok \<lparr>status = 404, statusText = ''Not Found'', bodyText = Inl ''network error''\<rparr> \<and>
   httpOperation (\<lambda>r. None)
        (\<lambda>request srv.
           (Inr \<lparr>status = 404, statusText = ''Not Found'', bodyText = Inl ''network error''\<rparr>,
            srv))
        (\<lambda>r. Inr ())
        \<lparr>url = ''https://api.liftlog.online/v2/club/c1/leave'', httpMethod = ''POST'',
         body = None\<rparr>
        (0::nat) = (Inl (Error (Some ''network error'')), 0)"
proof -
  let ?r = "\<lparr>status = 403, statusText = ''Forbidden'', bodyText = Inr ''denied''\<rparr>"
  let ?u = "\<lparr>status = 404, statusText = ''Not Found'', bodyText = Inl ''network error''\<rparr>"
  let ?q = "\<lparr>url = ''https://api.liftlog.online/v2/club/c1/leave'', httpMethod = ''POST'',
    body = None\<rparr>"
  have hr: "\<not> ok ?r" and hu: "\<not> ok ?u" by (simp_all add: ok_def)
  have fr: "(\<lambda>request srv. (Inr ?r, srv)) ?q (0::nat) = (Inr ?r, 0)"
    and fu: "(\<lambda>request srv. (Inr ?u, srv)) ?q (0::nat) = (Inr ?u, 0)" by simp_all
  show ?thesis
    using hr hu
      api_error_results [where fetch = "\<lambda>request srv. (Inr ?r, srv)" and request = ?q
        and srv = "0::nat" and srv' = "0::nat" and response = ?r and rem = "\<lambda>r. None"
        and decode = "\<lambda>r. Inr ()" and m = None, OF fr hr]
      api_error_results [where fetch = "\<lambda>request srv. (Inr ?u, srv)" and request = ?q
        and srv = "0::nat" and srv' = "0::nat" and response = ?u and rem = "\<lambda>r. None"
        and decode = "\<lambda>r. Inr ()" and m = None, OF fu hu]
    by auto
qed

text \<open>
  C2, as the code has it. \<open>acceptClubInviteAsync\<close> is a placeholder: for every
  request it resolves to an error result of type \<open>Unknown\<close> whose message is
  \<open>Not implemented - use inbox system\<close>, and it leaves the backend as it was, since
  it sends nothing: no member row is created.
\<close>

theorem acceptClubInviteAsync_placeholder:
  "acceptClubInviteAsync request srv =
     (Inr (fromError \<lparr>type = Unknown, message = ''Not implemented - use inbox system'',
        exception = Error (Some ''Not implemented - use inbox system'')\<rparr>), srv)"
  by (simp add: acceptClubInviteAsync_def unknownError_def)

text \<open>
  C2, as stated, fails: for the request below, against a backend whose member table
  is empty, the result is an error and the member table is still empty, so there is
  no row for the club and the user.
\<close>

theorem acceptClubInviteAsync_counterexample:
  "fst (acceptClubInviteAsync
      \<lparr>acr_clubId = ''club-1'', acr_userId = ''user-2'', acr_password = ''secret'',
       acr_encryptedAesKey = [1, 2, 3]\<rparr> ([] :: ClubMemberResponse list)) =
     Inr (fromError \<lparr>type = Unknown, message = ''Not implemented - use inbox system'',
       exception = Error (Some ''Not implemented - use inbox system'')\<rparr>) \<and>
   snd (acceptClubInviteAsync
      \<lparr>acr_clubId = ''club-1'', acr_userId = ''user-2'', acr_password = ''secret'',
       acr_encryptedAesKey = [1, 2, 3]\<rparr> ([] :: ClubMemberResponse list)) = []"
  by (simp add: acceptClubInviteAsync_def unknownError_def)

section \<open>Properties of the encryption primitives\<close>

lemma xorBytes_length: "length a = length b \<Longrightarrow> length (xorBytes a b) = length a"
  by (simp add: xorBytes_def)

lemma xor_byte_cancel: "((x :: byte) XOR y) XOR y = x"
  by (simp add: xor.assoc)


lemma xorBytes_cancel: "length a = length b \<Longrightarrow> xorBytes (xorBytes a b) b = a"
proof (induction a arbitrary: b)
  case Nil
  then show ?case by (simp add: xorBytes_def)
next
  case (Cons x xs)
  then obtain y ys where b: "b = y # ys" by (cases b) auto
  with Cons have "xorBytes (xorBytes xs ys) ys = xs" by simp
  then show ?case using b by (simp add: xorBytes_def xor_byte_cancel)
qed


lemma pkcs7Pad_length: "length (pkcs7Pad p) mod 16 = 0"
  unfolding pkcs7Pad_def Let_def by (simp; presburger)

lemma pkcs7Pad_ge: "16 \<le> length (pkcs7Pad p)"
  unfolding pkcs7Pad_def Let_def by (simp; presburger)

lemma pkcs7_roundtrip: "pkcs7Unpad (pkcs7Pad p) = Some p"
proof -
  define n where "n = 16 - length p mod 16"
  have n: "0 < n" "n \<le> 16" unfolding n_def by simp_all
  then have u: "unat (of_nat n :: byte) = n" by (simp add: unat_of_nat)
  have l: "last (p @ replicate n (of_nat n :: byte)) = of_nat n"
    using n by (cases n) simp_all
  show ?thesis
    unfolding pkcs7Pad_def pkcs7Unpad_def Let_def n_def [symmetric]
    using n u l by simp
qed

lemma block_length: "length p mod 16 = 0 \<Longrightarrow> p \<noteq> [] \<Longrightarrow> 16 \<le> length p"
  by (cases "length p < 16") auto

lemma drop_block: "n mod 16 = 0 \<Longrightarrow> 16 \<le> n \<Longrightarrow> (n - 16) mod 16 = (0::nat)"
  using le_mod_geq [of 16 n] by simp

lemma cbcEncrypt_step:
  "p \<noteq> [] \<Longrightarrow> cbcEncrypt bc k prev p =
     encryptBlock bc k (xorBytes (take 16 p) prev) @
     cbcEncrypt bc k (encryptBlock bc k (xorBytes (take 16 p) prev)) (drop 16 p)"
  by (subst cbcEncrypt.simps) (simp add: Let_def)

lemma cbcDecrypt_step:
  "length c = 16 \<Longrightarrow> cbcDecrypt bc k prev (c @ rest) =
     xorBytes (decryptBlock bc k c) prev @ cbcDecrypt bc k c rest"
  by (subst cbcDecrypt.simps) auto

lemma cbc_roundtrip:
  assumes "isBlockCipher bc"
  shows "length p mod 16 = 0 \<Longrightarrow> length prev = 16 \<Longrightarrow>
         cbcDecrypt bc k prev (cbcEncrypt bc k prev p) = p"
proof (induction "length p" arbitrary: p prev rule: less_induct)
  case less
  show ?case
  proof (cases "p = []")
    case True
    then show ?thesis by (simp add: cbcEncrypt.simps cbcDecrypt.simps)
  next
    case False
    let ?x = "xorBytes (take 16 p) prev"
    let ?c = "encryptBlock bc k ?x"
    have len: "16 \<le> length p" using False less.prems(1) by (simp add: block_length)
    then have lt: "length (take 16 p) = 16" by simp
    then have lx: "length ?x = 16" using less.prems(2) by (simp add: xorBytes_length)
    have lc: "length ?c = 16" and dc: "decryptBlock bc k ?c = ?x"
      using assms lx unfolding isBlockCipher_def by blast+
    have rest: "cbcDecrypt bc k ?c (cbcEncrypt bc k ?c (drop 16 p)) = drop 16 p"
    proof (rule less.hyps)
      show "length (drop 16 p) < length p" using len by simp
      show "length (drop 16 p) mod 16 = 0" using less.prems(1) len
        by (simp add: drop_block)
      show "length ?c = 16" by (rule lc)
    qed
    have undo: "xorBytes ?x prev = take 16 p"
      using lt less.prems(2) by (simp add: xorBytes_cancel)
    have "cbcDecrypt bc k prev (cbcEncrypt bc k prev p) =
          cbcDecrypt bc k prev (?c @ cbcEncrypt bc k ?c (drop 16 p))"
      using False by (simp add: cbcEncrypt_step)
    also have "\<dots> = xorBytes (decryptBlock bc k ?c) prev @
                    cbcDecrypt bc k ?c (cbcEncrypt bc k ?c (drop 16 p))"
      using lc by (rule cbcDecrypt_step)
    also have "\<dots> = take 16 p @ drop 16 p"
      by (simp only: dc undo rest)
    finally show ?thesis by simp
  qed
qed

lemma cbcEncrypt_length:
  assumes "isBlockCipher bc"
  shows "length p mod 16 = 0 \<Longrightarrow> length prev = 16 \<Longrightarrow>
         length (cbcEncrypt bc k prev p) = length p"
proof (induction "length p" arbitrary: p prev rule: less_induct)
  case less
  show ?case
  proof (cases "p = []")
    case True
    then show ?thesis by (simp add: cbcEncrypt.simps)
  next
    case False
    let ?x = "xorBytes (take 16 p) prev"
    let ?c = "encryptBlock bc k ?x"
    have len: "16 \<le> length p" using False less.prems(1) by (simp add: block_length)
    then have lx: "length ?x = 16" using less.prems(2) by (simp add: xorBytes_length)
    have lc: "length ?c = 16"
      using assms lx unfolding isBlockCipher_def by blast
    have "length (cbcEncrypt bc k ?c (drop 16 p)) = length (drop 16 p)"
    proof (rule less.hyps)
      show "length (drop 16 p) < length p" using len by simp
      show "length (drop 16 p) mod 16 = 0" using less.prems(1) len
        by (simp add: drop_block)
      show "length ?c = 16" by (rule lc)
    qed
    then show ?thesis using False lc len by (simp add: cbcEncrypt_step)
  qed
qed



lemma toyCipher_valid: "isBlockCipher toyCipher"
  by (simp add: isBlockCipher_def toyCipher_def comp_def)





section \<open>Properties of the effects\<close>

lemma aes_decrypt_own_iv:
  assumes "isBlockCipher bc" and "length v = 16"
  shows "decryptAesCbc bc \<lparr>encryptedPayload = cbcEncrypt bc k v (pkcs7Pad P), iv = v\<rparr> k = Inr P"
proof -
  have lp: "length (pkcs7Pad P) mod 16 = 0" by (rule pkcs7Pad_length)
  have lc: "length (cbcEncrypt bc k v (pkcs7Pad P)) = length (pkcs7Pad P)"
    using assms(1) lp assms(2) by (rule cbcEncrypt_length)
  have ne: "cbcEncrypt bc k v (pkcs7Pad P) \<noteq> []"
    using lc pkcs7Pad_ge [of P] by auto
  have rt: "cbcDecrypt bc k v (cbcEncrypt bc k v (pkcs7Pad P)) = pkcs7Pad P"
    using assms(1) lp assms(2) by (rule cbc_roundtrip)
  show ?thesis
    using lc lp ne assms(2) by (simp add: decryptAesCbc_def rt pkcs7_roundtrip)
qed

lemma aes_decrypt_other_iv:
  assumes "isBlockCipher bc" and "length v1 = 16" and "length v2 = 16" and "length p = 16"
  shows "decryptAesCbc bc \<lparr>encryptedPayload = cbcEncrypt bc k v2 p, iv = v1\<rparr> k =
           (case pkcs7Unpad (xorBytes (xorBytes p v2) v1) of
              None \<Rightarrow> Inl DecryptionError
            | Some q \<Rightarrow> Inr q)"
proof -
  let ?x = "xorBytes p v2"
  let ?c = "encryptBlock bc k ?x"
  have lx: "length ?x = 16" using assms(3,4) by (simp add: xorBytes_length)
  have lc: "length ?c = 16" and dc: "decryptBlock bc k ?c = ?x"
    using assms(1) lx unfolding isBlockCipher_def by blast+
  have enc: "cbcEncrypt bc k v2 p = ?c"
    using assms(4) by (subst cbcEncrypt.simps) (auto simp: Let_def cbcEncrypt.simps)
  have dec: "cbcDecrypt bc k v1 ?c = xorBytes ?x v1"
    using cbcDecrypt_step [OF lc, of bc k v1 "[]"] dc by (simp add: cbcDecrypt.simps)
  have ne: "?c \<noteq> []" using lc by auto
  show ?thesis
    using lc ne assms(2) by (simp add: decryptAesCbc_def enc dec)
qed

text \<open>
  The bytes of the name come back: a club created without a description loads with
  the decoder's reading of the encoded name, for every name, key and position of
  the random source.
\<close>

lemma createClub_name_loaded:
  assumes "isBlockCipher bc" and "ccp_description payload = None"
  shows "\<exists>club. loadClub bc parse decode
           (storedClub clubId created
              (fst (createClubRequest bc src pos identity payload key))) key = Inr club \<and>
           c_name club = decode (textEncode (ccp_name payload)) \<and> c_description club = None"
proof -
  let ?v = "map src [pos..<pos + 16]"
  have lv: "length ?v = 16" by simp
  have name: "decryptAesCbc bc
      \<lparr>encryptedPayload = cbcEncrypt bc key ?v (pkcs7Pad (textEncode (ccp_name payload))),
       iv = ?v\<rparr> key = Inr (textEncode (ccp_name payload))"
    using assms(1) lv by (rule aes_decrypt_own_iv)
  show ?thesis
    using assms(2) name
    by (simp add: loadClub_def storedClub_def createClubRequest_def encryptAesCbc_def
        getRandomValues_def del: upt_Suc)
qed

text \<open>
  C1, at an input where the code does not do what the claim says. A club is created
  with the name \<open>Lifters\<close> and the description \<open>Leg day\<close>; the random source gives the
  bytes 0 to 15 to the first call of \<open>encryptAesCbc\<close> (the name) and 16 to 31 to
  the second (the description). The request keeps the name's IV only, so the load
  flow decrypts the description with an IV it was not encrypted with: the first
  block comes out XORed with both IVs, its padding is no longer valid, and the
  decryption fails, for every block cipher. The description is not recovered, and
  the failure ends the load of all the user's clubs.
\<close>

theorem createClub_description_not_loaded:
  assumes "isBlockCipher bc"
  shows "loadClub bc parse decode
           (storedClub clubId created
              (fst (createClubRequest bc countingEntropy 0 identity
                 \<lparr>ccp_name = ''Lifters'', ccp_description = Some ''Leg day'',
                  ccp_isPublic = True, ccp_membersCanPost = True,
                  ccp_membersCanInvite = False, ccp_maxMembers = 50\<rparr> key)))
           key = Inl DecryptionError"
proof -
  define v1 where "v1 = map countingEntropy [0..<0 + 16]"
  define v2 where "v2 = map countingEntropy [16..<16 + 16]"
  define N where "N = textEncode ''Lifters''"
  define D where "D = textEncode ''Leg day''"
  have l1: "length v1 = 16" and l2: "length v2 = 16" by (simp_all add: v1_def v2_def)
  have lp: "length (pkcs7Pad D) = 16" unfolding D_def by code_simp
  have bad: "pkcs7Unpad (xorBytes (xorBytes (pkcs7Pad D) v2) v1) = None"
    unfolding D_def v1_def v2_def by code_simp
  have dne: "''Leg day'' \<noteq> []" by simp
  have e1: "encryptAesCbc bc countingEntropy 0 N key =
      (\<lparr>encryptedPayload = cbcEncrypt bc key v1 (pkcs7Pad N), iv = v1\<rparr>, 16)"
    unfolding encryptAesCbc_def getRandomValues_def v1_def by simp
  have e2: "encryptAesCbc bc countingEntropy 16 D key =
      (\<lparr>encryptedPayload = cbcEncrypt bc key v2 (pkcs7Pad D), iv = v2\<rparr>, 32)"
    unfolding encryptAesCbc_def getRandomValues_def v2_def by simp
  have name: "decryptAesCbc bc \<lparr>encryptedPayload = cbcEncrypt bc key v1 (pkcs7Pad N), iv = v1\<rparr>
      key = Inr N"
    using assms l1 by (rule aes_decrypt_own_iv)
  have desc: "decryptAesCbc bc \<lparr>encryptedPayload = cbcEncrypt bc key v2 (pkcs7Pad D), iv = v1\<rparr>
      key = Inl DecryptionError"
    using aes_decrypt_other_iv [OF assms l1 l2 lp, of key] bad by simp
  have req: "fst (createClubRequest bc countingEntropy 0 identity
                 \<lparr>ccp_name = ''Lifters'', ccp_description = Some ''Leg day'',
                  ccp_isPublic = True, ccp_membersCanPost = True,
                  ccp_membersCanInvite = False, ccp_maxMembers = 50\<rparr> key) =
      \<lparr>ccr_userId = id_id identity, ccr_password = id_password identity,
       ccr_encryptedName = cbcEncrypt bc key v1 (pkcs7Pad N),
       ccr_encryptedDescription = Some (cbcEncrypt bc key v2 (pkcs7Pad D)),
       ccr_encryptedProfilePicture = None, ccr_encryptionIv = v1,
       ccr_isPublic = True, ccr_membersCanPost = True, ccr_membersCanInvite = False,
       ccr_maxMembers = 50\<rparr>"
    unfolding createClubRequest_def using dne
    by (simp add: N_def [symmetric] D_def [symmetric] e1 e2)
  show ?thesis
    unfolding req by (simp add: loadClub_def storedClub_def name desc)
qed

theorem createClub_description_not_loaded_witness:
  "isBlockCipher toyCipher \<and>
   loadClub toyCipher (\<lambda>s. 0) (map (\<lambda>x. char_of (unat x)))
     (storedClub ''club-1'' ''2025-11-23T00:00:00Z''
        (fst (createClubRequest toyCipher countingEntropy 0
           \<lparr>id_id = ''user-1'', id_password = ''secret''\<rparr>
           \<lparr>ccp_name = ''Lifters'', ccp_description = Some ''Leg day'',
            ccp_isPublic = True, ccp_membersCanPost = True,
            ccp_membersCanInvite = False, ccp_maxMembers = 50\<rparr> [1, 2, 3])))
     [1, 2, 3] = Inl DecryptionError"
  using toyCipher_valid createClub_description_not_loaded [OF toyCipher_valid]
  by blast

section \<open>Properties of the access control policy\<close>

text \<open>
  C6. The roles are strictly ordered \<open>viewer < member < admin < owner\<close>, and for
  every role and operation the policy permits exactly what the table gives: viewing
  the feed for member, admin and owner; posting for a member when \<open>membersCanPost\<close>
  and for admin and owner; inviting for a member when \<open>membersCanInvite\<close> and for
  admin and owner; removing a member for an admin when the target is a member or a
  viewer and for the owner when the target is not the owner; changing a role under
  the same condition and with a new role that an admin cannot make owner; updating
  the settings and deleting the club for the owner alone.
\<close>

theorem role_matrix:
  "roleRank viewer < roleRank member \<and> roleRank member < roleRank admin \<and>
   roleRank admin < roleRank owner \<and>
   permits st r ViewFeed = (r = member \<or> r = admin \<or> r = owner) \<and>
   permits st r PostFeedItem = (r = member \<and> cs_membersCanPost st \<or> r = admin \<or> r = owner) \<and>
   permits st r InviteMember = (r = member \<and> cs_membersCanInvite st \<or> r = admin \<or> r = owner) \<and>
   permits st r (RemoveMember t) =
     (r = admin \<and> (t = member \<or> t = viewer) \<or> r = owner \<and> t \<noteq> owner) \<and>
   permits st r (ChangeMemberRole t n) =
     (r = admin \<and> (t = member \<or> t = viewer) \<and> n \<noteq> owner \<or> r = owner \<and> t \<noteq> owner) \<and>
   permits st r UpdateClubSettings = (r = owner) \<and>
   permits st r DeleteClub = (r = owner)"
  by (cases r; cases t; cases n) simp_all

end
